theory Spec2Isabelle
  imports Main
begin

section \<open>Time helpers of utils.ts\<close>

text \<open>
  JavaScript numbers are modelled on their integer values as \<open>int\<close>; the arithmetic of
  the helpers (one addition, one subtraction, a division by 60) is exact on integers of
  magnitude below \<open>2 ^ 53\<close>. A value that is \<open>NaN\<close> in the source is \<open>None\<close>.
\<close>

definition IST_OFFSET :: int where
  "IST_OFFSET = 330"

text \<open>\<open>Math.floor (a / b)\<close> for integers \<open>a\<close> and positive \<open>b\<close> is the floor division of HOL.\<close>

definition math_floor_div :: "int \<Rightarrow> int \<Rightarrow> int" where
  "math_floor_div a b = a div b"

text \<open>The remainder operator \<open>%\<close> of JavaScript truncates: the result has the sign of the dividend.\<close>

definition js_rem :: "int \<Rightarrow> int \<Rightarrow> int" where
  "js_rem a b = sgn a * (\<bar>a\<bar> mod \<bar>b\<bar>)"

definition digit_char :: "nat \<Rightarrow> char" where
  "digit_char d = char_of (48 + d)"

text \<open>The decimal digits of a natural number, most significant first.\<close>

fun nat_toString :: "nat \<Rightarrow> string" where
  "nat_toString n = (if n < 10 then [digit_char n] else nat_toString (n div 10) @ [digit_char (n mod 10)])"

text \<open>\<open>Number.prototype.toString\<close> on an integer (below \<open>10 ^ 21\<close>, where the source
  switches to exponent notation).\<close>

definition toString :: "int \<Rightarrow> string" where
  "toString i = (if i < 0 then CHR ''-'' # nat_toString (nat (- i)) else nat_toString (nat i))"

text \<open>\<open>s.padStart (n, c)\<close> with a one-character filler.\<close>

definition padStart :: "nat \<Rightarrow> char \<Rightarrow> string \<Rightarrow> string" where
  "padStart n c s = replicate (n - length s) c @ s"

text \<open>\<open>s.split (c)\<close> with a one-character separator: never empty, \<open>''''\<close> gives \<open>['''']\<close>.\<close>

fun split :: "char \<Rightarrow> string \<Rightarrow> string list" where
  "split c [] = [[]]"
| "split c (x # xs) =
     (if x = c then [] # split c xs
      else (case split c xs of [] \<Rightarrow> [[x]] | p # ps \<Rightarrow> (x # p) # ps))"

definition digit_val :: "char \<Rightarrow> nat option" where
  "digit_val c = (let n = (of_char c :: nat) in if 48 \<le> n \<and> n \<le> 57 then Some (n - 48) else None)"

text \<open>The value of a non-empty string of decimal digits, \<open>None\<close> when another character occurs.\<close>

fun digits_val :: "nat \<Rightarrow> string \<Rightarrow> nat option" where
  "digits_val acc [] = Some acc"
| "digits_val acc (c # cs) =
     (case digit_val c of None \<Rightarrow> None | Some d \<Rightarrow> digits_val (10 * acc + d) cs)"

text \<open>
  \<open>Number (s)\<close> on the strings the integer model represents: the empty string is 0, an
  optional sign followed by decimal digits is that integer. Every other string is
  \<open>None\<close>: in the source it is \<open>NaN\<close> or a numeral in a notation (white space, a
  fraction, an exponent, a radix prefix, \<open>Infinity\<close>) that this model does not follow.
\<close>

definition Number :: "string \<Rightarrow> int option" where
  "Number s =
     (case s of
        [] \<Rightarrow> Some 0
      | c # cs \<Rightarrow>
          if c = CHR ''-'' then (if cs = [] then None else map_option (\<lambda>n. - int n) (digits_val 0 cs))
          else if c = CHR ''+'' then (if cs = [] then None else map_option int (digits_val 0 cs))
          else map_option int (digits_val 0 (c # cs)))"

text \<open>Convert UTC minute-of-day to IST time string "HH:MM".\<close>

definition utcMinuteToIstTime :: "int \<Rightarrow> string" where
  "utcMinuteToIstTime utcMin =
     (let istMin0 = utcMin + IST_OFFSET;
          istMin = (if istMin0 \<ge> 1440 then istMin0 - 1440 else istMin0);
          h = math_floor_div istMin 60;
          m = js_rem istMin 60
      in padStart 2 CHR ''0'' (toString h) @ '':'' @ padStart 2 CHR ''0'' (toString m))"

text \<open>Convert UTC minute-of-day to UTC time string "HH:MM".\<close>

definition utcMinuteToUtcTime :: "int \<Rightarrow> string" where
  "utcMinuteToUtcTime utcMin =
     (let h = math_floor_div utcMin 60;
          m = js_rem utcMin 60
      in padStart 2 CHR ''0'' (toString h) @ '':'' @ padStart 2 CHR ''0'' (toString m))"

text \<open>
  Convert IST time string "HH:MM" to UTC minute-of-day. The destructuring
  \<open>[h, m] = istTime.split (':').map (Number)\<close> reads the first two parts; a missing second
  part is \<open>undefined\<close>, which makes the sum \<open>NaN\<close>.
\<close>

definition istTimeToUtcMinute :: "string \<Rightarrow> int option" where
  "istTimeToUtcMinute istTime =
     (case map Number (split CHR '':'' istTime) of
        Some h # Some m # _ \<Rightarrow>
          (let utcMin = h * 60 + m - IST_OFFSET
           in Some (if utcMin < 0 then utcMin + 1440 else utcMin))
      | _ \<Rightarrow> None)"

text \<open>
  A valid "HH:MM" string, in the words of the specification: two decimal digits for
  an hour below 24, a colon, two decimal digits for a minute below 60.
\<close>

definition valid_HHMM :: "string \<Rightarrow> bool" where
  "valid_HHMM s =
     (case s of
        [a, b, c, d, e] \<Rightarrow>
          c = CHR '':'' \<and>
          (case (digit_val a, digit_val b, digit_val d, digit_val e) of
             (Some x, Some y, Some z, Some w) \<Rightarrow> 10 * x + y < 24 \<and> 10 * z + w < 60
           | _ \<Rightarrow> False)
      | _ \<Rightarrow> False)"

section \<open>Data model: constants.ts and types.ts\<close>

text \<open>A public key is modelled by its base58 text.\<close>

type_synonym PublicKey = string

definition PublicKey_default :: PublicKey where
  "PublicKey_default = ''11111111111111111111111111111111''"

definition TRANSFER_HOOK_PROGRAM_ID :: PublicKey where
  "TRANSFER_HOOK_PROGRAM_ID = ''AjNBZRCm6jsPjPRiZ3hbAitg9KEgCYqKmGm675Fpi6XU''"


definition TREASURY_ADDRESS :: PublicKey where
  "TREASURY_ADDRESS = ''HtGXcunbPUU54wMa9ZiXdMXvv1b5ppT7DeFLJWdtH7Lr''"

definition METADATA_PROGRAM_ID :: PublicKey where
  "METADATA_PROGRAM_ID = ''metaqbxxUerdq28cj1RbAWkYQm3ybzjb6a8bt518x1s''"

text \<open>Program addresses exported by the libraries the code imports.\<close>

definition TOKEN_2022_PROGRAM_ID :: PublicKey where
  "TOKEN_2022_PROGRAM_ID = ''TokenzQdBNbLqP5VEhdkAS6EPFLC1PHnBqCXEpPxuEb''"



definition SystemProgram_programId :: PublicKey where
  "SystemProgram_programId = ''11111111111111111111111111111111''"

text \<open>
  An exception: \<open>Error\<close> is raised by a \<open>throw new Error (...)\<close> of this code with the
  given message, \<open>External\<close> by a collaborator (RPC transport, wallet, uploader, library).
\<close>

datatype error = Error string | External string

text \<open>Token basic metadata.\<close>

record TokenMetadata =
  name :: string
  symbol :: string
  description :: string
  decimals :: nat
  supply_amount :: int
  imageFileName :: string
  imageContentType :: string

record TransferFee =
  feeBasisPoints :: int
  maxFee :: int

record InterestBearing =
  rate :: int

text \<open>
  Extension configuration for token creation. Every field is optional in the source:
  \<open>None\<close> is an absent field.
\<close>

record TokenExtensions =
  permanentDelegation :: "bool option"
  transferFee :: "TransferFee option"
  interestBearing :: "InterestBearing option"
  memoTransfer :: "bool option"
  nonTransferable :: "bool option"
  cpiGuard :: "bool option"

record TradingHours =
  openMinuteUTC :: int
  closeMinuteUTC :: int

record TransferLimits =
  min_units :: int
  max_units :: int

record TransferHookConfig =
  tradingHours :: "TradingHours option"
  transferLimits :: "TransferLimits option"
  nftMintAddress :: "PublicKey option"

text \<open>The truth value of an optional boolean: \<open>undefined\<close> and \<open>false\<close> are falsy.\<close>

definition truthy :: "bool option \<Rightarrow> bool" where
  "truthy b = (b = Some True)"



section \<open>Instructions\<close>

datatype ExtensionType =
    TransferHook | PermanentDelegate | TransferFeeConfig | InterestBearingConfig
  | NonTransferable | MemoTransfer | CpiGuard

record AccountMeta =
  pubkey :: PublicKey
  isSigner :: bool
  isWritable :: bool

text \<open>
  An instruction is the call that builds it together with its arguments, in the order
  of the source; the byte encoding is the library's. The two instructions built through
  the Anchor method builder carry the accounts given to \<open>.accounts\<close> by name and the
  list given to \<open>.remainingAccounts\<close>.
\<close>

datatype Instruction =
    is_CreateAccount: CreateAccount PublicKey PublicKey nat nat PublicKey
  | is_InitializeNonTransferableMint: InitializeNonTransferableMint PublicKey PublicKey
  | is_InitializePermanentDelegate: InitializePermanentDelegate PublicKey PublicKey PublicKey
  | is_InitializeTransferFeeConfig:
      InitializeTransferFeeConfig PublicKey PublicKey PublicKey int int PublicKey
  | is_InitializeInterestBearingMint: InitializeInterestBearingMint PublicKey PublicKey int PublicKey
  | is_InitializeTransferHook: InitializeTransferHook PublicKey PublicKey PublicKey PublicKey
  | is_InitializeMint: InitializeMint PublicKey nat PublicKey PublicKey PublicKey
  | is_CreateAssociatedTokenAccount:
      CreateAssociatedTokenAccount PublicKey PublicKey PublicKey PublicKey PublicKey
  | is_MintTo: MintTo PublicKey PublicKey PublicKey int PublicKey
  | is_Reallocate: Reallocate PublicKey PublicKey "ExtensionType list" PublicKey PublicKey
  | is_EnableRequiredMemoTransfers: EnableRequiredMemoTransfers PublicKey PublicKey PublicKey
  | is_EnableCpiGuard: EnableCpiGuard PublicKey PublicKey PublicKey
  | is_InitializeRegistry:
      InitializeRegistry "int option" "int option" int int PublicKey "(string \<times> PublicKey) list"
  | is_PurchaseToken: PurchaseToken int "(string \<times> PublicKey) list" "AccountMeta list"
  | is_CreateV1: CreateV1 PublicKey string string string
  | is_OtherInstruction: OtherInstruction string

text \<open>The mint-extension initializations, and the enabling of an account-level extension.\<close>

definition is_extension_init :: "Instruction \<Rightarrow> bool" where
  "is_extension_init ix =
     (is_InitializeNonTransferableMint ix \<or> is_InitializePermanentDelegate ix \<or>
      is_InitializeTransferFeeConfig ix \<or> is_InitializeInterestBearingMint ix \<or>
      is_InitializeTransferHook ix)"

definition is_enable_account_extension :: "Instruction \<Rightarrow> bool" where
  "is_enable_account_extension ix = (is_EnableRequiredMemoTransfers ix \<or> is_EnableCpiGuard ix)"

section \<open>createToken of token.ts: the instruction plan\<close>

text \<open>Extension conflict logic.\<close>

definition isTransferHookDisabled :: "TokenExtensions \<Rightarrow> bool" where
  "isTransferHookDisabled extensions =
     (truthy (nonTransferable extensions) \<or> truthy (cpiGuard extensions))"

definition isTransferFeeDisabled :: "TokenExtensions \<Rightarrow> bool" where
  "isTransferFeeDisabled extensions = truthy (nonTransferable extensions)"

definition isPermanentDelegateDisabled :: "TokenExtensions \<Rightarrow> bool" where
  "isPermanentDelegateDisabled extensions = truthy (nonTransferable extensions)"

text \<open>The extension type list, from which the size of the mint account is computed.\<close>

definition extensionTypes :: "TokenExtensions \<Rightarrow> ExtensionType list" where
  "extensionTypes extensions =
     (if \<not> isTransferHookDisabled extensions then [TransferHook] else []) @
     (if truthy (permanentDelegation extensions) \<and> \<not> isPermanentDelegateDisabled extensions
      then [PermanentDelegate] else []) @
     (if transferFee extensions \<noteq> None \<and> \<not> isTransferFeeDisabled extensions
      then [TransferFeeConfig] else []) @
     (if interestBearing extensions \<noteq> None then [InterestBearingConfig] else []) @
     (if truthy (nonTransferable extensions) then [NonTransferable] else [])"

text \<open>The account-level extension list of step 5b.\<close>

definition accountExtensionTypes :: "TokenExtensions \<Rightarrow> ExtensionType list" where
  "accountExtensionTypes extensions =
     (if truthy (memoTransfer extensions) then [MemoTransfer] else []) @
     (if truthy (cpiGuard extensions) then [CpiGuard] else [])"

text \<open>
  \<open>new BN (n)\<close> on a number: the library asserts that the magnitude is below \<open>2 ^ 53\<close>.
  The products handed to it are computed in double precision, exact below that bound,
  so on integers the model is exact: either the product is exact or the assertion fails.
\<close>

definition new_BN :: "int \<Rightarrow> error + int" where
  "new_BN n = (if \<bar>n\<bar> < 2 ^ 53 then Inr n else Inl (External ''Assertion failed''))"

definition u64_MAX :: int where
  "u64_MAX = 18446744073709551615"

text \<open>
  Step 6: the arguments and accounts of the registry initialization. The transfer
  limits are scaled by \<open>10 ** decimals\<close>, the maximum first.
\<close>

definition initRegistryIx ::
  "PublicKey \<Rightarrow> PublicKey \<Rightarrow> PublicKey \<Rightarrow> PublicKey \<Rightarrow> TokenMetadata \<Rightarrow> TransferHookConfig
     \<Rightarrow> error + Instruction" where
  "initRegistryIx payer mint config extraAccountMetaList metadata hookConfig =
     (let openMinute = map_option openMinuteUTC (tradingHours hookConfig);
          closeMinute = map_option closeMinuteUTC (tradingHours hookConfig);
          nftMint = (case nftMintAddress hookConfig of None \<Rightarrow> PublicKey_default | Some k \<Rightarrow> k);
          accounts = [(''payer'', payer), (''treasury'', TREASURY_ADDRESS), (''mint'', mint),
                      (''config'', config), (''extraAccountMetaList'', extraAccountMetaList),
                      (''systemProgram'', SystemProgram_programId)]
      in case transferLimits hookConfig of
           None \<Rightarrow>
             Inr (InitializeRegistry openMinute closeMinute u64_MAX 0 nftMint accounts)
         | Some limits \<Rightarrow>
             (case new_BN (max_units limits * 10 ^ decimals metadata) of
                Inl e \<Rightarrow> Inl e
              | Inr maxTransferAmt \<Rightarrow>
                  (case new_BN (min_units limits * 10 ^ decimals metadata) of
                     Inl e \<Rightarrow> Inl e
                   | Inr minTransferAmt \<Rightarrow>
                       Inr (InitializeRegistry openMinute closeMinute maxTransferAmt
                              minTransferAmt nftMint accounts))))"

text \<open>
  Steps 1 to 5b: everything added to the transaction before the registry
  initialization. \<open>getMintLen\<close> is the library's size function, \<open>lamports\<close> the rent the
  ledger answered, \<open>mint\<close> the generated key, \<open>ata\<close> the associated token address. The
  initial supply is \<open>supply * 10 ** decimals\<close>, a double in the source: the product is
  exact below \<open>2 ^ 53\<close>, and no statement below depends on its value.
\<close>

definition mintInstructions ::
  "(ExtensionType list \<Rightarrow> nat) \<Rightarrow> nat \<Rightarrow> PublicKey \<Rightarrow> PublicKey \<Rightarrow> PublicKey \<Rightarrow> TokenMetadata
     \<Rightarrow> TokenExtensions \<Rightarrow> Instruction list" where
  "mintInstructions getMintLen lamports payer mint ata metadata extensions =
     [CreateAccount payer mint (getMintLen (extensionTypes extensions)) lamports TOKEN_2022_PROGRAM_ID] @
     (if truthy (nonTransferable extensions)
      then [InitializeNonTransferableMint mint TOKEN_2022_PROGRAM_ID] else []) @
     (if truthy (permanentDelegation extensions) \<and> \<not> isPermanentDelegateDisabled extensions
      then [InitializePermanentDelegate mint payer TOKEN_2022_PROGRAM_ID] else []) @
     (case transferFee extensions of
        Some fee \<Rightarrow>
          if \<not> isTransferFeeDisabled extensions
          then [InitializeTransferFeeConfig mint payer payer (feeBasisPoints fee) (maxFee fee)
                  TOKEN_2022_PROGRAM_ID]
          else []
      | None \<Rightarrow> []) @
     (case interestBearing extensions of
        Some ib \<Rightarrow> [InitializeInterestBearingMint mint payer (rate ib) TOKEN_2022_PROGRAM_ID]
      | None \<Rightarrow> []) @
     (if \<not> isTransferHookDisabled extensions
      then [InitializeTransferHook mint payer TRANSFER_HOOK_PROGRAM_ID TOKEN_2022_PROGRAM_ID]
      else []) @
     [InitializeMint mint (decimals metadata) payer payer TOKEN_2022_PROGRAM_ID] @
     [CreateAssociatedTokenAccount payer ata payer mint TOKEN_2022_PROGRAM_ID] @
     [MintTo mint ata payer (supply_amount metadata * 10 ^ decimals metadata) TOKEN_2022_PROGRAM_ID] @
     (if accountExtensionTypes extensions \<noteq> []
      then [Reallocate ata payer (accountExtensionTypes extensions) payer TOKEN_2022_PROGRAM_ID]
      else []) @
     (if truthy (memoTransfer extensions)
      then [EnableRequiredMemoTransfers ata payer TOKEN_2022_PROGRAM_ID] else []) @
     (if truthy (cpiGuard extensions)
      then [EnableCpiGuard ata payer TOKEN_2022_PROGRAM_ID] else [])"

text \<open>
  The instruction plan of the first transaction (\<open>transaction.instructions\<close> at the end
  of step 6), or the exception raised while building it.
\<close>

definition createToken_instructions ::
  "(ExtensionType list \<Rightarrow> nat) \<Rightarrow> nat \<Rightarrow> PublicKey \<Rightarrow> PublicKey \<Rightarrow> PublicKey \<Rightarrow> PublicKey
     \<Rightarrow> PublicKey \<Rightarrow> TokenMetadata \<Rightarrow> TokenExtensions \<Rightarrow> TransferHookConfig
     \<Rightarrow> error + Instruction list" where
  "createToken_instructions getMintLen lamports payer mint ata config extraAccountMetaList
       metadata extensions hookConfig =
     (if \<not> isTransferHookDisabled extensions
      then (case initRegistryIx payer mint config extraAccountMetaList metadata hookConfig of
              Inl e \<Rightarrow> Inl e
            | Inr ix \<Rightarrow>
                Inr (mintInstructions getMintLen lamports payer mint ata metadata extensions @ [ix]))
      else Inr (mintInstructions getMintLen lamports payer mint ata metadata extensions))"

text \<open>
  Every element satisfying \<open>P\<close> stands at a smaller index than every element
  satisfying \<open>Q\<close>.
\<close>

definition precedes :: "('a \<Rightarrow> bool) \<Rightarrow> ('a \<Rightarrow> bool) \<Rightarrow> 'a list \<Rightarrow> bool" where
  "precedes P Q xs =
     (\<forall>i < length xs. \<forall>j < length xs. P (xs ! i) \<and> Q (xs ! j) \<longrightarrow> i < j)"


text \<open>Concrete inputs on which the statements below are evaluated.\<close>

definition example_getMintLen :: "ExtensionType list \<Rightarrow> nat" where
  "example_getMintLen exts = 82 + 100 * length exts"

definition example_metadata :: TokenMetadata where
  "example_metadata =
     \<lparr>name = ''Example'', symbol = ''EX'', description = ''An example token'', decimals = 2,
      supply_amount = 1000, imageFileName = ''logo.png'', imageContentType = ''image/png''\<rparr>"

definition example_request :: TokenExtensions where
  "example_request =
     \<lparr>permanentDelegation = Some True,
      transferFee = Some \<lparr>feeBasisPoints = 50, maxFee = 5000\<rparr>,
      interestBearing = Some \<lparr>rate = 500\<rparr>, memoTransfer = Some True,
      nonTransferable = None, cpiGuard = Some False\<rparr>"

definition example_hookConfig :: TransferHookConfig where
  "example_hookConfig =
     \<lparr>tradingHours = Some \<lparr>openMinuteUTC = 210, closeMinuteUTC = 690\<rparr>,
      transferLimits = Some \<lparr>min_units = 1, max_units = 1000\<rparr>,
      nftMintAddress = None\<rparr>"

section \<open>The collaborators: ledger connection, wallet, uploader, libraries\<close>

text \<open>
  The state of a mint as \<open>getMint\<close> returns it, with the transfer-hook extension that
  \<open>getTransferHook\<close> decodes from it: \<open>None\<close> when the extension is absent.
\<close>

record TransferHookInfo =
  hook_authority :: PublicKey
  hook_programId :: PublicKey

record Mint =
  mint_address :: PublicKey
  mint_decimals :: nat
  mint_transferHook :: "TransferHookInfo option"

definition getTransferHook :: "Mint \<Rightarrow> TransferHookInfo option" where
  "getTransferHook mintState = mint_transferHook mintState"

record VersionedTransaction =
  payerKey :: PublicKey
  recentBlockhash :: string
  instructions :: "Instruction list"
  signatures :: "PublicKey list"

text \<open>The value of a simulation: \<open>err\<close> as its JSON text when there is one, and the logs.\<close>

record SimulationResult =
  err :: "string option"
  logs :: "string list option"



datatype seed = SeedText string | SeedKey PublicKey

text \<open>
  Every call to a collaborator is recorded with its arguments and its answer: \<open>Inl\<close> is
  the exception the call raised. \<open>EvAddExtraAccountMetasForExecute\<close> carries the hook
  program, the keys of the instruction before the call, the keys after it (the call
  extends them in place) and the exception, if it raised one.
\<close>

datatype event =
    EvUpload string "error + string"
  | EvUploadJson string string "error + string"
  | EvGetMinimumBalanceForRentExemption nat "error + nat"
  | EvGetLatestBlockhash "error + string \<times> nat"
  | EvSimulateTransaction VersionedTransaction "error + SimulationResult"
  | EvWalletSign VersionedTransaction "error + VersionedTransaction"
  | EvSendRawTransaction VersionedTransaction bool "error + string"
  | EvConfirmTransaction string string nat "error + unit"
  | EvGetMint PublicKey "error + Mint"
  | EvAddExtraAccountMetasForExecute PublicKey "AccountMeta list" "AccountMeta list" "error option"
  | EvGetAccountInfo PublicKey "error + PublicKey option"
  | EvFetchIcoConfigAccount PublicKey "error + PublicKey"
  | EvGetAccount PublicKey PublicKey "error + unit"
  | EvRpc "Instruction list" "error + string"

text \<open>
  The collaborators answer as functions of the arguments and of the number of calls
  recorded so far, so that the same call can be answered differently later. The
  address derivations and the size function are pure library functions.
\<close>

record world =
  w_upload :: "nat \<Rightarrow> string \<Rightarrow> error + string"
  w_uploadJson :: "nat \<Rightarrow> string \<Rightarrow> string \<Rightarrow> error + string"
  w_getMintLen :: "ExtensionType list \<Rightarrow> nat"
  w_getMinimumBalanceForRentExemption :: "nat \<Rightarrow> nat \<Rightarrow> error + nat"
  w_getLatestBlockhash :: "nat \<Rightarrow> error + string \<times> nat"
  w_simulateTransaction :: "nat \<Rightarrow> VersionedTransaction \<Rightarrow> error + SimulationResult"
  w_sendRawTransaction :: "nat \<Rightarrow> VersionedTransaction \<Rightarrow> bool \<Rightarrow> error + string"
  w_confirmTransaction :: "nat \<Rightarrow> string \<Rightarrow> string \<Rightarrow> nat \<Rightarrow> error + unit"
  w_getMint :: "nat \<Rightarrow> PublicKey \<Rightarrow> error + Mint"
  w_addExtraAccountMetasForExecute ::
    "nat \<Rightarrow> AccountMeta list \<Rightarrow> PublicKey \<Rightarrow> PublicKey \<Rightarrow> PublicKey \<Rightarrow> PublicKey \<Rightarrow> PublicKey
       \<Rightarrow> int \<Rightarrow> AccountMeta list \<times> error option"
  w_getAccountInfo :: "nat \<Rightarrow> PublicKey \<Rightarrow> error + PublicKey option"
  w_fetchIcoConfigAccount :: "nat \<Rightarrow> PublicKey \<Rightarrow> error + PublicKey"
  w_getAccount :: "nat \<Rightarrow> PublicKey \<Rightarrow> PublicKey \<Rightarrow> error + unit"
  w_rpc :: "nat \<Rightarrow> Instruction list \<Rightarrow> error + string"
  w_findProgramAddressSync :: "seed list \<Rightarrow> PublicKey \<Rightarrow> PublicKey \<times> nat"
  w_getAssociatedTokenAddressSync ::
    "PublicKey \<Rightarrow> PublicKey \<Rightarrow> bool \<Rightarrow> PublicKey \<Rightarrow> error + PublicKey"


text \<open>
  An asynchronous operation started after \<open>t\<close> recorded calls: the calls it makes, in
  order, and its result or the exception it raises.
\<close>

type_synonym 'a io = "nat \<Rightarrow> event list \<times> (error + 'a)"

definition io_return :: "'a \<Rightarrow> 'a io" where
  "io_return x = (\<lambda>t. ([], Inr x))"

definition io_throw :: "error \<Rightarrow> 'a io" where
  "io_throw e = (\<lambda>t. ([], Inl e))"

definition io_lift :: "error + 'a \<Rightarrow> 'a io" where
  "io_lift r = (\<lambda>t. ([], r))"

definition io_call :: "(error + 'a \<Rightarrow> event) \<Rightarrow> (nat \<Rightarrow> error + 'a) \<Rightarrow> 'a io" where
  "io_call ev answer = (\<lambda>t. ([ev (answer t)], answer t))"

definition io_bind :: "'a io \<Rightarrow> ('a \<Rightarrow> 'b io) \<Rightarrow> 'b io" where
  "io_bind m f =
     (\<lambda>t. case m t of
        (es, Inl e) \<Rightarrow> (es, Inl e)
      | (es, Inr v) \<Rightarrow> (case f v (t + length es) of (es', r) \<Rightarrow> (es @ es', r)))"

text \<open>\<open>try { m } catch { h }\<close>.\<close>

definition io_catch :: "'a io \<Rightarrow> (error \<Rightarrow> 'a io) \<Rightarrow> 'a io" where
  "io_catch m h =
     (\<lambda>t. case m t of
        (es, Inl e) \<Rightarrow> (case h e (t + length es) of (es', r) \<Rightarrow> (es @ es', r))
      | (es, Inr v) \<Rightarrow> (es, Inr v))"

section \<open>PDA derivation of utils.ts\<close>






section \<open>resolveTransferHookAccounts of utils.ts\<close>

text \<open>
  The keys of the library's \<open>createTransferCheckedInstruction\<close> called without
  multi-signers: source, mint, destination and the authority as the signer.
\<close>

definition createTransferCheckedInstruction ::
  "PublicKey \<Rightarrow> PublicKey \<Rightarrow> PublicKey \<Rightarrow> PublicKey \<Rightarrow> int \<Rightarrow> nat \<Rightarrow> AccountMeta list" where
  "createTransferCheckedInstruction source mint destination authority amount dec =
     [\<lparr>pubkey = source, isSigner = False, isWritable = True\<rparr>,
      \<lparr>pubkey = mint, isSigner = False, isWritable = False\<rparr>,
      \<lparr>pubkey = destination, isSigner = False, isWritable = True\<rparr>,
      \<lparr>pubkey = authority, isSigner = True, isWritable = False\<rparr>]"

text \<open>
  The library's \<open>addExtraAccountMetasForExecute\<close>: it extends the keys of the instruction
  in place and may raise; the result is the keys after a call that did not raise.
\<close>

definition addExtraAccountMetasForExecute ::
  "world \<Rightarrow> AccountMeta list \<Rightarrow> PublicKey \<Rightarrow> PublicKey \<Rightarrow> PublicKey \<Rightarrow> PublicKey \<Rightarrow> PublicKey
     \<Rightarrow> int \<Rightarrow> AccountMeta list io" where
  "addExtraAccountMetasForExecute w keys hookProgram source mint destination authority amount =
     (\<lambda>t. case w_addExtraAccountMetasForExecute w t keys hookProgram source mint destination
                 authority amount of
        (keys', exn) \<Rightarrow>
          ([EvAddExtraAccountMetasForExecute hookProgram keys keys' exn],
           case exn of None \<Rightarrow> Inr keys' | Some e \<Rightarrow> Inl e))"

text \<open>
  Resolves the extra accounts needed by a Transfer Hook for a given transfer: the keys
  beyond the standard 4 of the expanded mock instruction (\<open>mockIx.keys.slice (4)\<close>), and
  the empty list from the \<open>catch\<close>.
\<close>

definition resolveTransferHookAccounts ::
  "world \<Rightarrow> PublicKey \<Rightarrow> PublicKey \<Rightarrow> PublicKey \<Rightarrow> PublicKey \<Rightarrow> int \<Rightarrow> nat \<Rightarrow> AccountMeta list io" where
  "resolveTransferHookAccounts w mint source destination authority amount dec =
     io_catch
       (io_bind (io_call (EvGetMint mint) (\<lambda>t. w_getMint w t mint)) (\<lambda>mintState.
          case getTransferHook mintState of
            None \<Rightarrow> io_return []
          | Some hookInfo \<Rightarrow>
              io_bind
                (addExtraAccountMetasForExecute w
                   (createTransferCheckedInstruction source mint destination authority amount dec)
                   (hook_programId hookInfo) source mint destination authority amount)
                (\<lambda>keys. io_return (drop 4 keys))))
       (\<lambda>e. io_return [])"

text \<open>The calls to \<open>addExtraAccountMetasForExecute\<close> among the recorded calls.\<close>

fun is_dynamic_resolution :: "event \<Rightarrow> bool" where
  "is_dynamic_resolution (EvAddExtraAccountMetasForExecute p ks ks' x) = True"
| "is_dynamic_resolution _ = False"

section \<open>buyToken (the ICO module)\<close>






section \<open>Transaction helpers of utils.ts\<close>





section \<open>createToken of token.ts: assembly and submission\<close>

text \<open>\<open>xs.join (sep)\<close>.\<close>

fun join :: "string \<Rightarrow> string list \<Rightarrow> string" where
  "join sep [] = []"
| "join sep [x] = x"
| "join sep (x # y # ys) = x @ sep @ join sep (y # ys)"










text \<open>Concrete collaborators on which the statements below are evaluated.\<close>

definition example_extra_accounts :: "AccountMeta list" where
  "example_extra_accounts =
     [\<lparr>pubkey = ''whitelist'', isSigner = False, isWritable = True\<rparr>,
      \<lparr>pubkey = ''hookProgram'', isSigner = False, isWritable = False\<rparr>,
      \<lparr>pubkey = ''metas'', isSigner = False, isWritable = False\<rparr>]"

fun seed_text :: "seed \<Rightarrow> string" where
  "seed_text (SeedText s) = s"
| "seed_text (SeedKey k) = k"

definition example_world :: world where
  "example_world =
     \<lparr>w_upload = (\<lambda>t f. Inr ''imageUri''),
      w_uploadJson = (\<lambda>t n i. Inr ''metadataUri''),
      w_getMintLen = example_getMintLen,
      w_getMinimumBalanceForRentExemption = (\<lambda>t n. Inr 2000),
      w_getLatestBlockhash = (\<lambda>t. Inr (''blockhash'', 100)),
      w_simulateTransaction = (\<lambda>t tx. Inr \<lparr>err = None, logs = Some []\<rparr>),
      w_sendRawTransaction = (\<lambda>t tx skip. Inr ''signature''),
      w_confirmTransaction = (\<lambda>t s b h. Inr ()),
      w_getMint = (\<lambda>t m. Inr \<lparr>mint_address = m, mint_decimals = 9,
          mint_transferHook = Some \<lparr>hook_authority = ''authority'', hook_programId = ''hookProgram''\<rparr>\<rparr>),
      w_addExtraAccountMetasForExecute = (\<lambda>t keys p s m d a n. (keys @ example_extra_accounts, None)),
      w_getAccountInfo = (\<lambda>t k. Inr (Some TOKEN_2022_PROGRAM_ID)),
      w_fetchIcoConfigAccount = (\<lambda>t k. Inr ''creator''),
      w_getAccount = (\<lambda>t k p. Inr ()),
      w_rpc = (\<lambda>t ixs. Inr ''signature''),
      w_findProgramAddressSync = (\<lambda>seeds p. (join ''-'' (map seed_text seeds), 255)),
      w_getAssociatedTokenAddressSync = (\<lambda>m k c p. Inr (''ata-'' @ k))\<rparr>"



text \<open>
  A mint whose transfer-hook extension is present with the null program address; the
  dynamic resolution finds no validation account for that program and leaves the
  instruction as it is.
\<close>

definition null_hook_world :: world where
  "null_hook_world =
     example_world
       \<lparr>w_getMint := (\<lambda>t m. Inr \<lparr>mint_address = m, mint_decimals = 9,
          mint_transferHook =
            Some \<lparr>hook_authority = ''authority'', hook_programId = PublicKey_default\<rparr>\<rparr>),
        w_addExtraAccountMetasForExecute := (\<lambda>t keys p s m d a n. (keys, None))\<rparr>"

text \<open>A ledger on which the dynamic resolution raises after it has added an account.\<close>

definition probe_failure_world :: world where
  "probe_failure_world =
     example_world
       \<lparr>w_addExtraAccountMetasForExecute :=
          (\<lambda>t keys p s m d a n.
             (keys @ [\<lparr>pubkey = ''whitelist'', isSigner = False, isWritable = True\<rparr>],
              Some (External ''Failed to fetch account'')))\<rparr>"






section \<open>Properties of the time helpers\<close>

lemma of_char_digit_char: "d < 10 \<Longrightarrow> (of_char (digit_char d) :: nat) = 48 + d"
  by (simp add: digit_char_def)

lemma digit_val_digit_char: "d < 10 \<Longrightarrow> digit_val (digit_char d) = Some d"
  by (simp add: digit_val_def of_char_digit_char)

lemma digit_char_neq:
  assumes "d < 10"
  shows "digit_char d \<noteq> CHR '':''" "digit_char d \<noteq> CHR ''-''" "digit_char d \<noteq> CHR ''+''"
proof -
  have "(of_char (digit_char d) :: nat) \<noteq> of_char CHR '':''"
    "(of_char (digit_char d) :: nat) \<noteq> of_char CHR ''-''"
    "(of_char (digit_char d) :: nat) \<noteq> of_char CHR ''+''"
    using assms by (simp_all add: of_char_digit_char)
  then show "digit_char d \<noteq> CHR '':''" "digit_char d \<noteq> CHR ''-''" "digit_char d \<noteq> CHR ''+''"
    by auto
qed

lemma digit_val_SomeD: "digit_val c = Some x \<Longrightarrow> c = digit_char x \<and> x < 10"
proof -
  assume a: "digit_val c = Some x"
  then have r: "48 \<le> (of_char c :: nat)" "(of_char c :: nat) \<le> 57" "x = of_char c - 48"
    by (auto simp: digit_val_def Let_def split: if_splits)
  then have "48 + x = (of_char c :: nat)" by simp
  then have "char_of (48 + x) = (char_of (of_char c :: nat) :: char)" by simp
  then show ?thesis using r by (simp add: digit_char_def)
qed

lemma two_digits:
  "n < 100 \<Longrightarrow>
   padStart 2 CHR ''0'' (toString (int n)) = [digit_char (n div 10), digit_char (n mod 10)]"
proof -
  assume n: "n < 100"
  have z: "digit_char 0 = CHR ''0''" unfolding digit_char_def by code_simp
  show ?thesis
  proof (cases "n < 10")
    case True
    then show ?thesis by (simp add: padStart_def toString_def z)
  next
    case False
    then have "n div 10 < 10" using n by simp
    then show ?thesis using False by (simp add: padStart_def toString_def)
  qed
qed

lemma Number_two_digits:
  "a < 10 \<Longrightarrow> b < 10 \<Longrightarrow> Number [digit_char a, digit_char b] = Some (int (10 * a + b))"
  by (simp add: Number_def digit_char_neq digit_val_digit_char)

lemma split_HHMM:
  "a < 10 \<Longrightarrow> b < 10 \<Longrightarrow> c < 10 \<Longrightarrow> d < 10 \<Longrightarrow>
   split CHR '':'' [digit_char a, digit_char b, CHR '':'', digit_char c, digit_char d]
     = [[digit_char a, digit_char b], [digit_char c, digit_char d]]"
  by (simp add: digit_char_neq)

lemma istTimeToUtcMinute_digits:
  assumes "a < 10" "b < 10" "c < 10" "d < 10"
  shows "istTimeToUtcMinute [digit_char a, digit_char b, CHR '':'', digit_char c, digit_char d]
     = Some (let u = int (10 * a + b) * 60 + int (10 * c + d) - 330
             in if u < 0 then u + 1440 else u)"
  unfolding istTimeToUtcMinute_def split_HHMM [OF assms]
  using assms by (simp add: Number_two_digits IST_OFFSET_def Let_def del: split.simps)

lemma utcMinuteToIstTime_digits:
  assumes "0 \<le> x" "x < 6000" "x = (if u + 330 \<ge> 1440 then u + 330 - 1440 else u + 330)"
  shows "utcMinuteToIstTime u =
     [digit_char (nat x div 60 div 10), digit_char (nat x div 60 mod 10), CHR '':'',
      digit_char (nat x mod 60 div 10), digit_char (nat x mod 60 mod 10)]"
proof -
  have h: "math_floor_div x 60 = int (nat x div 60)"
    using assms(1) by (simp add: math_floor_div_def zdiv_int)
  have m: "js_rem x 60 = int (nat x mod 60)"
    using assms(1) by (cases "x = 0") (simp_all add: js_rem_def zmod_int)
  have hl: "nat x div 60 < 100" using assms by simp
  have ml: "nat x mod 60 < 100"
    by (rule less_trans [OF mod_less_divisor]) simp_all
  have "utcMinuteToIstTime u =
      padStart 2 CHR ''0'' (toString (math_floor_div x 60)) @ '':'' @
      padStart 2 CHR ''0'' (toString (js_rem x 60))"
    using assms(3) by (simp add: utcMinuteToIstTime_def IST_OFFSET_def Let_def)
  then show ?thesis
    by (simp only: h m two_digits [OF hl] two_digits [OF ml]) simp
qed

lemma div60: "b < 60 \<Longrightarrow> (a * 60 + b) div 60 = (a::nat)"
  by simp

lemma mod60: "b < 60 \<Longrightarrow> (a * 60 + b) mod 60 = (b::nat)"
  by simp

lemma string_roundtrip:
  assumes "valid_HHMM s"
  shows "map_option utcMinuteToIstTime (istTimeToUtcMinute s) = Some s"
proof -
  from assms obtain a b d e x y z w where
    s: "s = [a, b, CHR '':'', d, e]"
    and dv: "digit_val a = Some x" "digit_val b = Some y" "digit_val d = Some z" "digit_val e = Some w"
    and r: "10 * x + y < 24" "10 * z + w < 60"
    by (auto simp: valid_HHMM_def split: list.splits option.splits)
  from dv have c: "a = digit_char x" "b = digit_char y" "d = digit_char z" "e = digit_char w"
    and l: "x < 10" "y < 10" "z < 10" "w < 10"
    by (auto dest: digit_val_SomeD)
  define t where "t = int (10 * x + y) * 60 + int (10 * z + w)"
  define u where "u = (if t - 330 < 0 then t - 330 + 1440 else t - 330)"
  have tr: "0 \<le> t" "t < 1440" using r by (simp_all add: t_def)
  have i: "istTimeToUtcMinute s = Some u"
    unfolding s c istTimeToUtcMinute_digits [OF l] by (simp add: u_def t_def Let_def)
  have tu: "t = (if u + 330 \<ge> 1440 then u + 330 - 1440 else u + 330)"
    using tr by (simp add: u_def)
  have nt: "nat t = (10 * x + y) * 60 + (10 * z + w)"
    by (simp add: t_def nat_add_distrib nat_mult_distrib)
  have dm: "nat t div 60 = 10 * x + y" "nat t mod 60 = 10 * z + w"
    unfolding nt using r(2) by (rule div60, rule mod60)
  have "utcMinuteToIstTime u = s"
    using utcMinuteToIstTime_digits [OF tr(1) _ tu] tr(2) l
    by (simp add: dm s c)
  then show ?thesis by (simp add: i)
qed

lemma minute_roundtrip:
  assumes "- 330 \<le> m" "m < 2880"
  shows "istTimeToUtcMinute (utcMinuteToIstTime m) = Some (m mod 1440)"
proof -
  define x where "x = (if m + 330 \<ge> 1440 then m + 330 - 1440 else m + 330)"
  have xr: "0 \<le> x" "x < 6000" using assms by (simp_all add: x_def)
  define n where "n = nat x"
  have l: "n div 60 div 10 < 10" "n div 60 mod 10 < 10" "n mod 60 div 10 < 10" "n mod 60 mod 10 < 10"
    using xr by (simp_all add: n_def div_less_iff_less_mult)
  have e1: "10 * (n div 60 div 10) + n div 60 mod 10 = n div 60" by simp
  have e2: "10 * (n mod 60 div 10) + n mod 60 mod 10 = n mod 60" by simp
  have "int (n div 60) * 60 + int (n mod 60) = int n"
    by (metis div_mult_mod_eq of_nat_add of_nat_mult of_nat_numeral)
  then have recompose: "int (n div 60) * 60 + int (n mod 60) = x"
    using xr by (simp add: n_def)
  have "istTimeToUtcMinute (utcMinuteToIstTime m)
      = Some (let u = x - 330 in if u < 0 then u + 1440 else u)"
    unfolding utcMinuteToIstTime_digits [OF xr x_def] n_def [symmetric]
      istTimeToUtcMinute_digits [OF l] e1 e2 recompose ..
  also have "(let u = x - 330 in if u < 0 then u + 1440 else u) = m mod 1440"
  proof -
    consider "m < 0" | "0 \<le> m \<and> m < 1440" | "1440 \<le> m" by linarith
    then show ?thesis
    proof cases
      case 1
      have "m mod 1440 = (m + 1440) mod 1440" by simp
      also have "\<dots> = m + 1440"
        by (rule mod_pos_pos_trivial) (use 1 assms in simp_all)
      finally show ?thesis using 1 assms by (simp add: x_def Let_def)
    next
      case 2
      then show ?thesis by (simp add: x_def Let_def)
    next
      case 3
      have "m mod 1440 = (m - 1440) mod 1440" by simp
      also have "\<dots> = m - 1440"
        by (rule mod_pos_pos_trivial) (use 3 assms in simp_all)
      finally show ?thesis using 3 assms by (simp add: x_def Let_def)
    qed
  qed
  finally show ?thesis .
qed

text \<open>
  Claim C6, as the code has it. For every valid "HH:MM" string \<open>s\<close>,
  \<open>utcMinuteToIstTime (istTimeToUtcMinute s)\<close> is \<open>s\<close>. For every integer \<open>m\<close> from -330
  up to 2879, \<open>istTimeToUtcMinute (utcMinuteToIstTime m)\<close> is \<open>m mod 1440\<close>; in
  particular it is \<open>m\<close> itself for a minute of the day, from 0 to 1439.
\<close>

theorem time_conversion_roundtrip:
  "(valid_HHMM s \<longrightarrow> map_option utcMinuteToIstTime (istTimeToUtcMinute s) = Some s) \<and>
   (- 330 \<le> m \<and> m < 2880 \<longrightarrow> istTimeToUtcMinute (utcMinuteToIstTime m) = Some (m mod 1440)) \<and>
   (0 \<le> m \<and> m < 1440 \<longrightarrow> istTimeToUtcMinute (utcMinuteToIstTime m) = Some m)"
proof (intro conjI impI)
  assume "valid_HHMM s"
  then show "map_option utcMinuteToIstTime (istTimeToUtcMinute s) = Some s"
    by (rule string_roundtrip)
next
  assume "- 330 \<le> m \<and> m < 2880"
  then show "istTimeToUtcMinute (utcMinuteToIstTime m) = Some (m mod 1440)"
    by (simp add: minute_roundtrip)
next
  assume r: "0 \<le> m \<and> m < 1440"
  then have "istTimeToUtcMinute (utcMinuteToIstTime m) = Some (m mod 1440)"
    by (simp add: minute_roundtrip)
  with r show "istTimeToUtcMinute (utcMinuteToIstTime m) = Some m"
    by simp
qed

theorem time_conversion_roundtrip_witness:
  "valid_HHMM ''09:00'' \<and> istTimeToUtcMinute ''09:00'' = Some 210 \<and>
   utcMinuteToIstTime 210 = ''09:00'' \<and>
   map_option utcMinuteToIstTime (istTimeToUtcMinute ''09:00'') = Some ''09:00'' \<and>
   utcMinuteToIstTime 1439 = ''05:29'' \<and>
   istTimeToUtcMinute (utcMinuteToIstTime 1439) = Some 1439 \<and>
   istTimeToUtcMinute (utcMinuteToIstTime 1500) = Some (1500 mod 1440)"
proof -
  have v: "valid_HHMM ''09:00''" by code_simp
  have a: "istTimeToUtcMinute ''09:00'' = Some 210" by code_simp
  have b: "utcMinuteToIstTime 210 = ''09:00''" by code_simp
  have c: "utcMinuteToIstTime 1439 = ''05:29''" by code_simp
  from time_conversion_roundtrip [of "''09:00''" 1439] v
  have d: "map_option utcMinuteToIstTime (istTimeToUtcMinute ''09:00'') = Some ''09:00''"
    and e: "istTimeToUtcMinute (utcMinuteToIstTime 1439) = Some 1439"
    by simp_all
  from time_conversion_roundtrip [of "''09:00''" 1500]
  have f: "istTimeToUtcMinute (utcMinuteToIstTime 1500) = Some (1500 mod 1440)"
    by simp
  from v a b c d e f show ?thesis by blast
qed

text \<open>
  Claim C6 as stated fails outside that range: \<open>utcMinuteToIstTime\<close> subtracts 1440 at
  most once and does not reduce modulo 1440. At \<open>m = 2880\<close> the string is "29:30" and the
  way back gives 1440, where \<open>2880 mod 1440\<close> is 0; at \<open>m = -331\<close> the string is "-1:-1"
  and the way back gives 1049, where \<open>-331 mod 1440\<close> is 1109.
\<close>

theorem time_conversion_roundtrip_counterexample:
  "utcMinuteToIstTime 2880 = ''29:30'' \<and>
   istTimeToUtcMinute (utcMinuteToIstTime 2880) = Some 1440 \<and>
   (2880::int) mod 1440 = 0 \<and>
   istTimeToUtcMinute (utcMinuteToIstTime 2880) \<noteq> Some (2880 mod 1440) \<and>
   utcMinuteToIstTime (- 331) = ''-1:-1'' \<and>
   istTimeToUtcMinute (utcMinuteToIstTime (- 331)) = Some 1049 \<and>
   (- 331::int) mod 1440 = 1109"
proof -
  have a: "utcMinuteToIstTime 2880 = ''29:30''" by code_simp
  have b: "istTimeToUtcMinute ''29:30'' = Some 1440" by code_simp
  have c: "utcMinuteToIstTime (- 331) = ''-1:-1''" by code_simp
  have d: "istTimeToUtcMinute ''-1:-1'' = Some 1049" by code_simp
  show ?thesis unfolding a b c d by simp
qed

section \<open>Properties of the instruction plan of createToken\<close>

lemma precedes_Nil: "precedes P Q []"
  by (simp add: precedes_def)

lemma precedes_Cons:
  "precedes P Q (x # xs) \<longleftrightarrow> (Q x \<longrightarrow> \<not> P x \<and> (\<forall>y \<in> set xs. \<not> P y)) \<and> precedes P Q xs"
proof
  assume a: "precedes P Q (x # xs)"
  have 1: "\<not> P x" if "Q x"
  proof
    assume "P x"
    from a have "P ((x # xs) ! 0) \<and> Q ((x # xs) ! 0) \<longrightarrow> (0::nat) < 0"
      unfolding precedes_def by (metis length_Cons zero_less_Suc)
    with \<open>P x\<close> that show False by simp
  qed
  have 2: "\<not> P y" if "Q x" "y \<in> set xs" for y
  proof
    assume "P y"
    from that(2) obtain k where k: "k < length xs" "xs ! k = y"
      by (auto simp: in_set_conv_nth)
    from a have "P ((x # xs) ! Suc k) \<and> Q ((x # xs) ! 0) \<longrightarrow> Suc k < 0"
      unfolding precedes_def using k(1) by (metis length_Cons not_less_eq zero_less_Suc)
    with \<open>P y\<close> that(1) k(2) show False by simp
  qed
  have 3: "precedes P Q xs"
    unfolding precedes_def
  proof (intro allI impI)
    fix i j assume "i < length xs" "j < length xs" "P (xs ! i) \<and> Q (xs ! j)"
    with a have "Suc i < Suc j"
      unfolding precedes_def by (metis length_Cons not_less_eq nth_Cons_Suc Suc_less_eq)
    then show "i < j" by simp
  qed
  from 1 2 3 show "(Q x \<longrightarrow> \<not> P x \<and> (\<forall>y \<in> set xs. \<not> P y)) \<and> precedes P Q xs" by blast
next
  assume a: "(Q x \<longrightarrow> \<not> P x \<and> (\<forall>y \<in> set xs. \<not> P y)) \<and> precedes P Q xs"
  show "precedes P Q (x # xs)"
    unfolding precedes_def
  proof (intro allI impI)
    fix i j
    assume b: "i < length (x # xs)" "j < length (x # xs)" "P ((x # xs) ! i) \<and> Q ((x # xs) ! j)"
    show "i < j"
    proof (cases i)
      case 0
      with a b show ?thesis by (cases j) auto
    next
      case (Suc i')
      show ?thesis
      proof (cases j)
        case 0
        with a b Suc show ?thesis by auto
      next
        case (Suc j')
        with a b \<open>i = Suc i'\<close> show ?thesis by (auto simp: precedes_def)
      qed
    qed
  qed
qed

lemma precedes_append:
  "precedes P Q (xs @ ys) \<longleftrightarrow>
     precedes P Q xs \<and> precedes P Q ys \<and> ((\<exists>x \<in> set xs. Q x) \<longrightarrow> (\<forall>y \<in> set ys. \<not> P y))"
  by (induction xs) (auto simp: precedes_Cons precedes_Nil)

lemmas precedes_simps = precedes_append precedes_Cons precedes_Nil

lemmas kind_defs = is_extension_init_def is_enable_account_extension_def

lemma createToken_instructions_cases:
  assumes "createToken_instructions g l payer mint ata config metas md ext hc = Inr plan"
  obtains (disabled) "isTransferHookDisabled ext"
      "plan = mintInstructions g l payer mint ata md ext"
    | (enabled) ix where "\<not> isTransferHookDisabled ext"
      "initRegistryIx payer mint config metas md hc = Inr ix"
      "plan = mintInstructions g l payer mint ata md ext @ [ix]"
  using assms by (auto simp: createToken_instructions_def split: if_splits sum.splits)

lemma initRegistryIx_is_registry:
  "initRegistryIx payer mint config metas md hc = Inr ix \<Longrightarrow> is_InitializeRegistry ix"
  by (auto simp: initRegistryIx_def Let_def split: option.splits sum.splits)

lemma mintInstructions_no_registry:
  "ix \<in> set (mintInstructions g l payer mint ata md ext) \<Longrightarrow> \<not> is_InitializeRegistry ix"
  by (auto simp: mintInstructions_def split: if_splits option.splits)

lemma mintInstructions_hd:
  "mintInstructions g l payer mint ata md ext =
     CreateAccount payer mint (g (extensionTypes ext)) l TOKEN_2022_PROGRAM_ID #
     tl (mintInstructions g l payer mint ata md ext)"
  by (simp add: mintInstructions_def)

lemma mintInstructions_order:
  "precedes is_CreateAccount is_extension_init (mintInstructions g l payer mint ata md ext)"
  "precedes is_extension_init is_InitializeMint (mintInstructions g l payer mint ata md ext)"
  "precedes is_InitializeMint is_CreateAssociatedTokenAccount
     (mintInstructions g l payer mint ata md ext)"
  "precedes is_CreateAssociatedTokenAccount is_MintTo (mintInstructions g l payer mint ata md ext)"
  "precedes is_MintTo is_Reallocate (mintInstructions g l payer mint ata md ext)"
  "precedes is_Reallocate is_enable_account_extension (mintInstructions g l payer mint ata md ext)"
  by (simp_all add: mintInstructions_def precedes_simps kind_defs split: option.splits)

lemma mintInstructions_counts:
  "filter is_CreateAccount (mintInstructions g l payer mint ata md ext) =
     [CreateAccount payer mint (g (extensionTypes ext)) l TOKEN_2022_PROGRAM_ID]"
  "filter is_InitializeMint (mintInstructions g l payer mint ata md ext) =
     [InitializeMint mint (decimals md) payer payer TOKEN_2022_PROGRAM_ID]"
  "filter is_CreateAssociatedTokenAccount (mintInstructions g l payer mint ata md ext) =
     [CreateAssociatedTokenAccount payer ata payer mint TOKEN_2022_PROGRAM_ID]"
  "filter is_MintTo (mintInstructions g l payer mint ata md ext) =
     [MintTo mint ata payer (supply_amount md * 10 ^ decimals md) TOKEN_2022_PROGRAM_ID]"
  by (simp_all add: mintInstructions_def split: option.splits)

lemma mintInstructions_realloc:
  "(\<exists>ix \<in> set (mintInstructions g l payer mint ata md ext). is_enable_account_extension ix) \<Longrightarrow>
   (\<exists>ix \<in> set (mintInstructions g l payer mint ata md ext). is_Reallocate ix)"
  by (auto simp: mintInstructions_def accountExtensionTypes_def kind_defs
      split: if_splits option.splits)

lemma precedes_snoc_other:
  "precedes P Q xs \<Longrightarrow> \<not> P x \<Longrightarrow> \<not> Q x \<Longrightarrow> precedes P Q (xs @ [x])"
  by (simp add: precedes_simps)

lemma filter_snoc_other: "\<not> P x \<Longrightarrow> filter P (xs @ [x]) = filter P xs"
  by simp

text \<open>
  Claim C2. In every plan createToken builds: the account creation is the first
  instruction and the only one of its kind; every mint-extension initialization stands
  after it and before the one InitializeMint; the one creation of the owner's
  associated token account stands after InitializeMint and the one MintTo after that
  creation; a Reallocate stands after MintTo and before every enabling of an
  account-level extension, and is there whenever such an enabling is; and when the
  transfer hook is not disabled the last instruction is the registry initialization,
  which occurs nowhere when the hook is disabled.
\<close>

theorem createToken_plan_order:
  assumes "createToken_instructions g l payer mint ata config metas md ext hc = Inr plan"
  shows "plan \<noteq> [] \<and>
     hd plan = CreateAccount payer mint (g (extensionTypes ext)) l TOKEN_2022_PROGRAM_ID \<and>
     filter is_CreateAccount plan = [hd plan] \<and>
     precedes is_CreateAccount is_extension_init plan \<and>
     precedes is_extension_init is_InitializeMint plan \<and>
     length (filter is_InitializeMint plan) = 1 \<and>
     precedes is_InitializeMint is_CreateAssociatedTokenAccount plan \<and>
     length (filter is_CreateAssociatedTokenAccount plan) = 1 \<and>
     precedes is_CreateAssociatedTokenAccount is_MintTo plan \<and>
     length (filter is_MintTo plan) = 1 \<and>
     precedes is_MintTo is_Reallocate plan \<and>
     precedes is_Reallocate is_enable_account_extension plan \<and>
     ((\<exists>ix \<in> set plan. is_enable_account_extension ix) \<longrightarrow> (\<exists>ix \<in> set plan. is_Reallocate ix)) \<and>
     (\<not> isTransferHookDisabled ext \<longrightarrow>
        is_InitializeRegistry (last plan) \<and> filter is_InitializeRegistry plan = [last plan]) \<and>
     (isTransferHookDisabled ext \<longrightarrow> (\<forall>ix \<in> set plan. \<not> is_InitializeRegistry ix))"
proof -
  let ?m = "mintInstructions g l payer mint ata md ext"
  note hd = mintInstructions_hd [of g l payer mint ata md ext]
  have ne: "?m \<noteq> []" and hdm: "hd ?m = CreateAccount payer mint (g (extensionTypes ext)) l TOKEN_2022_PROGRAM_ID"
    by (subst hd, simp)+
  from assms show ?thesis
  proof (cases rule: createToken_instructions_cases)
    case disabled
    have r: "(\<exists>ix \<in> set ?m. is_enable_account_extension ix) \<longrightarrow> (\<exists>ix \<in> set ?m. is_Reallocate ix)"
      using mintInstructions_realloc by blast
    have n: "\<forall>ix \<in> set ?m. \<not> is_InitializeRegistry ix"
      using mintInstructions_no_registry by blast
    show ?thesis
      unfolding disabled(2)
      using disabled(1) ne hdm r n
      by (simp add: mintInstructions_order mintInstructions_counts)
  next
    case (enabled ix)
    have reg: "is_InitializeRegistry ix"
      using enabled(2) by (rule initRegistryIx_is_registry)
    then have k: "\<not> is_CreateAccount ix" "\<not> is_extension_init ix" "\<not> is_InitializeMint ix"
      "\<not> is_CreateAssociatedTokenAccount ix" "\<not> is_MintTo ix" "\<not> is_Reallocate ix"
      "\<not> is_enable_account_extension ix"
      by (cases ix; simp add: kind_defs)+
    have r: "(\<exists>x \<in> set (?m @ [ix]). is_enable_account_extension x) \<longrightarrow>
        (\<exists>x \<in> set (?m @ [ix]). is_Reallocate x)"
      using mintInstructions_realloc [of g l payer mint ata md ext] k by auto
    have f: "filter is_InitializeRegistry (?m @ [ix]) = [ix]"
      using reg mintInstructions_no_registry [of _ g l payer mint ata md ext]
      by (simp add: filter_empty_conv)
    have o: "precedes is_CreateAccount is_extension_init (?m @ [ix])"
      "precedes is_extension_init is_InitializeMint (?m @ [ix])"
      "precedes is_InitializeMint is_CreateAssociatedTokenAccount (?m @ [ix])"
      "precedes is_CreateAssociatedTokenAccount is_MintTo (?m @ [ix])"
      "precedes is_MintTo is_Reallocate (?m @ [ix])"
      "precedes is_Reallocate is_enable_account_extension (?m @ [ix])"
      by (rule precedes_snoc_other, rule mintInstructions_order, (rule k)+)+
    have c: "filter is_CreateAccount (?m @ [ix]) = [hd ?m]"
      "length (filter is_InitializeMint (?m @ [ix])) = 1"
      "length (filter is_CreateAssociatedTokenAccount (?m @ [ix])) = 1"
      "length (filter is_MintTo (?m @ [ix])) = 1"
      using k by (simp_all add: mintInstructions_counts hdm)
    have h: "hd (?m @ [ix]) = hd ?m" using ne by simp
    show ?thesis
      unfolding enabled(3)
      using enabled(1) reg r f o c hdm h by simp
  qed
qed


theorem createToken_plan_order_witness:
  "createToken_instructions example_getMintLen 2000 ''payer'' ''mint'' ''ata'' ''config'' ''metas''
      example_metadata example_request example_hookConfig =
     Inr [CreateAccount ''payer'' ''mint'' 482 2000 TOKEN_2022_PROGRAM_ID,
          InitializePermanentDelegate ''mint'' ''payer'' TOKEN_2022_PROGRAM_ID,
          InitializeTransferFeeConfig ''mint'' ''payer'' ''payer'' 50 5000 TOKEN_2022_PROGRAM_ID,
          InitializeInterestBearingMint ''mint'' ''payer'' 500 TOKEN_2022_PROGRAM_ID,
          InitializeTransferHook ''mint'' ''payer'' TRANSFER_HOOK_PROGRAM_ID TOKEN_2022_PROGRAM_ID,
          InitializeMint ''mint'' 2 ''payer'' ''payer'' TOKEN_2022_PROGRAM_ID,
          CreateAssociatedTokenAccount ''payer'' ''ata'' ''payer'' ''mint'' TOKEN_2022_PROGRAM_ID,
          MintTo ''mint'' ''ata'' ''payer'' 100000 TOKEN_2022_PROGRAM_ID,
          Reallocate ''ata'' ''payer'' [MemoTransfer] ''payer'' TOKEN_2022_PROGRAM_ID,
          EnableRequiredMemoTransfers ''ata'' ''payer'' TOKEN_2022_PROGRAM_ID,
          InitializeRegistry (Some 210) (Some 690) 100000 100 PublicKey_default
            [(''payer'', ''payer''), (''treasury'', TREASURY_ADDRESS), (''mint'', ''mint''),
             (''config'', ''config''), (''extraAccountMetaList'', ''metas''),
             (''systemProgram'', SystemProgram_programId)]] \<and>
   \<not> isTransferHookDisabled example_request \<and>
   (\<exists>plan. createToken_instructions example_getMintLen 2000 ''payer'' ''mint'' ''ata'' ''config''
        ''metas'' example_metadata example_request example_hookConfig = Inr plan \<and>
      precedes is_extension_init is_InitializeMint plan \<and>
      precedes is_InitializeMint is_CreateAssociatedTokenAccount plan \<and>
      precedes is_CreateAssociatedTokenAccount is_MintTo plan \<and>
      precedes is_MintTo is_Reallocate plan \<and>
      precedes is_Reallocate is_enable_account_extension plan \<and>
      is_InitializeRegistry (last plan))"
proof -
  let ?plan = "[CreateAccount ''payer'' ''mint'' 482 2000 TOKEN_2022_PROGRAM_ID,
          InitializePermanentDelegate ''mint'' ''payer'' TOKEN_2022_PROGRAM_ID,
          InitializeTransferFeeConfig ''mint'' ''payer'' ''payer'' 50 5000 TOKEN_2022_PROGRAM_ID,
          InitializeInterestBearingMint ''mint'' ''payer'' 500 TOKEN_2022_PROGRAM_ID,
          InitializeTransferHook ''mint'' ''payer'' TRANSFER_HOOK_PROGRAM_ID TOKEN_2022_PROGRAM_ID,
          InitializeMint ''mint'' 2 ''payer'' ''payer'' TOKEN_2022_PROGRAM_ID,
          CreateAssociatedTokenAccount ''payer'' ''ata'' ''payer'' ''mint'' TOKEN_2022_PROGRAM_ID,
          MintTo ''mint'' ''ata'' ''payer'' 100000 TOKEN_2022_PROGRAM_ID,
          Reallocate ''ata'' ''payer'' [MemoTransfer] ''payer'' TOKEN_2022_PROGRAM_ID,
          EnableRequiredMemoTransfers ''ata'' ''payer'' TOKEN_2022_PROGRAM_ID,
          InitializeRegistry (Some 210) (Some 690) 100000 100 PublicKey_default
            [(''payer'', ''payer''), (''treasury'', TREASURY_ADDRESS), (''mint'', ''mint''),
             (''config'', ''config''), (''extraAccountMetaList'', ''metas''),
             (''systemProgram'', SystemProgram_programId)]]"
  have d: "\<not> isTransferHookDisabled example_request"
    by (simp add: isTransferHookDisabled_def example_request_def truthy_def)
  have h: "createToken_instructions example_getMintLen 2000 ''payer'' ''mint'' ''ata'' ''config''
      ''metas'' example_metadata example_request example_hookConfig = Inr ?plan"
    by (simp add: createToken_instructions_def mintInstructions_def initRegistryIx_def
        extensionTypes_def accountExtensionTypes_def isTransferHookDisabled_def
        isTransferFeeDisabled_def isPermanentDelegateDisabled_def truthy_def new_BN_def
        example_request_def example_metadata_def example_hookConfig_def example_getMintLen_def)
  from createToken_plan_order [OF h] d h show ?thesis by blast
qed






section \<open>Properties of resolveTransferHookAccounts\<close>

lemmas io_defs = io_return_def io_throw_def io_lift_def io_call_def io_bind_def io_catch_def

lemma resolve_cases:
  "resolveTransferHookAccounts w mint source destination authority amount dec t =
     (case w_getMint w t mint of
        Inl e \<Rightarrow> ([EvGetMint mint (Inl e)], Inr [])
      | Inr mintState \<Rightarrow>
          (case getTransferHook mintState of
             None \<Rightarrow> ([EvGetMint mint (Inr mintState)], Inr [])
           | Some hookInfo \<Rightarrow>
               (case w_addExtraAccountMetasForExecute w (Suc t)
                       (createTransferCheckedInstruction source mint destination authority amount dec)
                       (hook_programId hookInfo) source mint destination authority amount of
                  (keys', exn) \<Rightarrow>
                    ([EvGetMint mint (Inr mintState),
                      EvAddExtraAccountMetasForExecute (hook_programId hookInfo)
                        (createTransferCheckedInstruction source mint destination authority amount dec)
                        keys' exn],
                     Inr (case exn of None \<Rightarrow> drop 4 keys' | Some e \<Rightarrow> [])))))"
  by (simp add: resolveTransferHookAccounts_def addExtraAccountMetasForExecute_def io_defs
      split: sum.splits option.splits prod.splits)

text \<open>
  Claim C3. resolveTransferHookAccounts never raises: for every ledger and every
  transfer context its result is a list of accounts, and the list is empty when the mint
  cannot be fetched, when the mint has no transfer hook, and when the dynamic resolution
  raises, whatever it had added to the instruction by then.
\<close>

theorem resolve_never_raises:
  "(\<exists>ks. snd (resolveTransferHookAccounts w mint source destination authority amount dec t) = Inr ks) \<and>
   (\<forall>e. w_getMint w t mint = Inl e \<longrightarrow>
      snd (resolveTransferHookAccounts w mint source destination authority amount dec t) = Inr []) \<and>
   (\<forall>mintState. w_getMint w t mint = Inr mintState \<and> getTransferHook mintState = None \<longrightarrow>
      snd (resolveTransferHookAccounts w mint source destination authority amount dec t) = Inr []) \<and>
   (\<forall>mintState hookInfo keys' e.
      w_getMint w t mint = Inr mintState \<and> getTransferHook mintState = Some hookInfo \<and>
      w_addExtraAccountMetasForExecute w (Suc t)
        (createTransferCheckedInstruction source mint destination authority amount dec)
        (hook_programId hookInfo) source mint destination authority amount = (keys', Some e) \<longrightarrow>
      snd (resolveTransferHookAccounts w mint source destination authority amount dec t) = Inr [])"
  by (auto simp: resolve_cases split: sum.splits option.splits prod.splits)

theorem resolve_never_raises_witness:
  "w_getMint probe_failure_world 0 ''mint'' =
     Inr \<lparr>mint_address = ''mint'', mint_decimals = 9,
          mint_transferHook = Some \<lparr>hook_authority = ''authority'', hook_programId = ''hookProgram''\<rparr>\<rparr> \<and>
   w_addExtraAccountMetasForExecute probe_failure_world (Suc 0)
     (createTransferCheckedInstruction ''source'' ''mint'' ''destination'' ''authority'' 5 9)
     ''hookProgram'' ''source'' ''mint'' ''destination'' ''authority'' 5 =
     (createTransferCheckedInstruction ''source'' ''mint'' ''destination'' ''authority'' 5 9 @
        [\<lparr>pubkey = ''whitelist'', isSigner = False, isWritable = True\<rparr>],
      Some (External ''Failed to fetch account'')) \<and>
   snd (resolveTransferHookAccounts probe_failure_world ''mint'' ''source'' ''destination''
          ''authority'' 5 9 0) = Inr []"
proof -
  let ?ms = "\<lparr>mint_address = ''mint'', mint_decimals = 9,
          mint_transferHook = Some \<lparr>hook_authority = ''authority'', hook_programId = ''hookProgram''\<rparr>\<rparr>"
  let ?h = "\<lparr>hook_authority = ''authority'', hook_programId = ''hookProgram''\<rparr>"
  have a: "w_getMint probe_failure_world 0 ''mint'' = Inr ?ms"
    by (simp add: probe_failure_world_def example_world_def)
  have b: "getTransferHook ?ms = Some ?h"
    by (simp add: getTransferHook_def)
  have c: "w_addExtraAccountMetasForExecute probe_failure_world (Suc 0)
     (createTransferCheckedInstruction ''source'' ''mint'' ''destination'' ''authority'' 5 9)
     (hook_programId ?h) ''source'' ''mint'' ''destination'' ''authority'' 5 =
     (createTransferCheckedInstruction ''source'' ''mint'' ''destination'' ''authority'' 5 9 @
        [\<lparr>pubkey = ''whitelist'', isSigner = False, isWritable = True\<rparr>],
      Some (External ''Failed to fetch account''))"
    by (simp add: probe_failure_world_def example_world_def)
  from resolve_never_raises [of probe_failure_world "''mint''" "''source''" "''destination''"
      "''authority''" 5 9 0]
  have "snd (resolveTransferHookAccounts probe_failure_world ''mint'' ''source'' ''destination''
          ''authority'' 5 9 0) = Inr []"
    using a b c by blast
  with a c show ?thesis by simp
qed

text \<open>
  Claim C4. Over a mint that carries a transfer hook, when the mint is fetched and the
  dynamic resolution returns, resolveTransferHookAccounts returns the keys of the
  expanded instruction from index 4 on. The instruction starts with the four keys
  source, mint, destination, authority, so when the resolution appends accounts to them
  the result is exactly the appended accounts, in their order and with their flags.
\<close>

theorem resolve_returns_suffix:
  assumes "w_getMint w t mint = Inr mintState"
    and "getTransferHook mintState = Some hookInfo"
    and "w_addExtraAccountMetasForExecute w (Suc t)
        (createTransferCheckedInstruction source mint destination authority amount dec)
        (hook_programId hookInfo) source mint destination authority amount = (keys', None)"
  shows "snd (resolveTransferHookAccounts w mint source destination authority amount dec t) =
       Inr (drop 4 keys') \<and>
     (\<forall>extra. keys' = createTransferCheckedInstruction source mint destination authority amount dec @ extra
        \<longrightarrow> snd (resolveTransferHookAccounts w mint source destination authority amount dec t) = Inr extra) \<and>
     map pubkey (createTransferCheckedInstruction source mint destination authority amount dec) =
       [source, mint, destination, authority]"
  using assms by (auto simp: resolve_cases createTransferCheckedInstruction_def)

theorem resolve_returns_suffix_witness:
  "w_getMint example_world 0 ''mint'' =
     Inr \<lparr>mint_address = ''mint'', mint_decimals = 9,
          mint_transferHook = Some \<lparr>hook_authority = ''authority'', hook_programId = ''hookProgram''\<rparr>\<rparr> \<and>
   w_addExtraAccountMetasForExecute example_world (Suc 0)
     (createTransferCheckedInstruction ''source'' ''mint'' ''destination'' ''authority'' 5 9)
     ''hookProgram'' ''source'' ''mint'' ''destination'' ''authority'' 5 =
     (createTransferCheckedInstruction ''source'' ''mint'' ''destination'' ''authority'' 5 9 @
        example_extra_accounts, None) \<and>
   snd (resolveTransferHookAccounts example_world ''mint'' ''source'' ''destination''
          ''authority'' 5 9 0) =
     Inr [\<lparr>pubkey = ''whitelist'', isSigner = False, isWritable = True\<rparr>,
          \<lparr>pubkey = ''hookProgram'', isSigner = False, isWritable = False\<rparr>,
          \<lparr>pubkey = ''metas'', isSigner = False, isWritable = False\<rparr>]"
proof -
  let ?ms = "\<lparr>mint_address = ''mint'', mint_decimals = 9,
          mint_transferHook = Some \<lparr>hook_authority = ''authority'', hook_programId = ''hookProgram''\<rparr>\<rparr>"
  let ?h = "\<lparr>hook_authority = ''authority'', hook_programId = ''hookProgram''\<rparr>"
  have a: "w_getMint example_world 0 ''mint'' = Inr ?ms"
    by (simp add: example_world_def)
  have b: "getTransferHook ?ms = Some ?h"
    by (simp add: getTransferHook_def)
  have c: "w_addExtraAccountMetasForExecute example_world (Suc 0)
     (createTransferCheckedInstruction ''source'' ''mint'' ''destination'' ''authority'' 5 9)
     (hook_programId ?h) ''source'' ''mint'' ''destination'' ''authority'' 5 =
     (createTransferCheckedInstruction ''source'' ''mint'' ''destination'' ''authority'' 5 9 @
        example_extra_accounts, None)"
    by (simp add: example_world_def)
  from resolve_returns_suffix [OF a b c]
  have "snd (resolveTransferHookAccounts example_world ''mint'' ''source'' ''destination''
          ''authority'' 5 9 0) = Inr example_extra_accounts"
    by blast
  with a c show ?thesis by (simp add: example_extra_accounts_def)
qed

text \<open>
  The part of claim C8 that the code has: when the mint cannot be fetched or carries no
  transfer-hook extension, the result is empty and no dynamic resolution is performed.
\<close>

lemma resolve_without_extension:
  assumes "w_getMint w t mint = Inl e \<or>
      (\<exists>mintState. w_getMint w t mint = Inr mintState \<and> getTransferHook mintState = None)"
  shows "snd (resolveTransferHookAccounts w mint source destination authority amount dec t) = Inr [] \<and>
     \<not> list_ex is_dynamic_resolution
         (fst (resolveTransferHookAccounts w mint source destination authority amount dec t))"
  using assms by (auto simp: resolve_cases)

text \<open>
  Claim C8 at a mint whose transfer-hook extension is present with the null program
  address: resolveTransferHookAccounts tests only whether the extension is there, so
  it does perform the dynamic resolution, with the null address as the hook program,
  and returns the keys that resolution leaves beyond the first four (none here, the
  resolution having found nothing to add). detectExtensions, the sibling that reads the
  same extension, treats the null program address as no transfer hook.
\<close>

theorem resolve_null_program_address:
  "resolveTransferHookAccounts null_hook_world ''mint'' ''source'' ''destination'' ''authority'' 5 9 0 =
     ([EvGetMint ''mint''
         (Inr \<lparr>mint_address = ''mint'', mint_decimals = 9,
               mint_transferHook =
                 Some \<lparr>hook_authority = ''authority'', hook_programId = PublicKey_default\<rparr>\<rparr>),
       EvAddExtraAccountMetasForExecute PublicKey_default
         (createTransferCheckedInstruction ''source'' ''mint'' ''destination'' ''authority'' 5 9)
         (createTransferCheckedInstruction ''source'' ''mint'' ''destination'' ''authority'' 5 9)
         None],
      Inr []) \<and>
   list_ex is_dynamic_resolution
     (fst (resolveTransferHookAccounts null_hook_world ''mint'' ''source'' ''destination'' ''authority'' 5 9 0))"
  by (simp add: resolve_cases null_hook_world_def example_world_def getTransferHook_def
      createTransferCheckedInstruction_def)

section \<open>Properties of buyToken\<close>







section \<open>Properties of transaction assembly and submission\<close>
















end
